theory Spec2Isabelle
  imports Complex_Main "HOL-Library.Sublist" "HOL-Library.Word"
begin

section \<open>DocuChat AI: the React client\<close>

text \<open>
  The repository's sources are the client of a document question answering service: the
  application shell (\<open>App\<close>), the chat panel (\<open>ChatInterface\<close>), the message bubble
  (\<open>MessageBubble\<close>), the chart component (\<open>ChartVisualizer\<close>), the document list, the
  conversation sidebar and the HTTP wrappers of \<open>services/api\<close>.

  A component is modelled as the function from its props and state to a description of what
  it renders; an event handler as a function from the state to the new state and the
  requests it issues. Styling props (\<open>sx\<close>, colours of bars, sizes) do not take part in
  any decision of the code and are left out of the rendered descriptions.
\<close>

subsection \<open>JavaScript values\<close>

text \<open>
  \<open>chart_data\<close> has the TypeScript type \<open>any\<close>: it is whatever JSON the server sent. A
  value is \<open>undefined\<close>, \<open>null\<close>, a boolean, a number, a string, an array or an object; an
  object is the list of its own properties in enumeration order (the order of
  \<open>Object.keys\<close>). Numbers are modelled as exact reals: JSON carries neither \<open>NaN\<close> nor an
  infinity, and the code only compares numbers, multiplies them by 100 and rounds them. (A
  product of IEEE doubles can differ from the exact product in its last bit, so a rounded
  percentage can differ by one from the browser's; nothing below depends on a percentage.)
\<close>

datatype jsval =
    JUndefined
  | JNull
  | JBool bool
  | JNum real
  | JStr string
  | JArr "jsval list"
  | JObj "(string \<times> jsval) list"

datatype js_error = TypeError

text \<open>Truthiness, and the operator \<open>||\<close>, which returns one of its operands.\<close>

fun truthy :: "jsval \<Rightarrow> bool" where
  "truthy JUndefined = False"
| "truthy JNull = False"
| "truthy (JBool b) = b"
| "truthy (JNum n) = (n \<noteq> 0)"
| "truthy (JStr s) = (s \<noteq> [])"
| "truthy (JArr xs) = True"
| "truthy (JObj kvs) = True"

definition js_or :: "jsval \<Rightarrow> jsval \<Rightarrow> jsval" where
  "js_or a b = (if truthy a then a else b)"

text \<open>Decimal notation of integers, as a template string prints them.\<close>

definition digit_char :: "nat \<Rightarrow> char" where
  "digit_char d = ''0123456789'' ! (d mod 10)"

function show_nat :: "nat \<Rightarrow> string" where
  "show_nat n = (if n < 10 then [digit_char n] else show_nat (n div 10) @ [digit_char (n mod 10)])"
  by pat_completeness auto
termination
  by (relation "measure (\<lambda>n. n)") auto

declare show_nat.simps [simp del]

definition show_int :: "int \<Rightarrow> string" where
  "show_int i = (if i < 0 then CHR ''-'' # show_nat (nat (- i)) else show_nat (nat i))"

text \<open>
  The indexed properties of an array or a string: the names \<open>0\<close>, \<open>1\<close>, ... with the
  elements.
\<close>

definition index_props :: "'a list \<Rightarrow> (string \<times> 'a) list" where
  "index_props xs = zip (map show_nat [0..<length xs]) xs"

text \<open>
  Reading a property \<open>v.k\<close> or \<open>v[k]\<close>. On \<open>undefined\<close> and \<open>null\<close> it throws a
  \<open>TypeError\<close>. Otherwise it is the own property or \<open>undefined\<close>: the names the code
  reads, \<open>data\<close>, \<open>title\<close>, \<open>type\<close>, \<open>length\<close> and \<open>0\<close>, are on no prototype but as the
  \<open>length\<close> and the elements of arrays and strings.
\<close>

fun get_prop :: "jsval \<Rightarrow> string \<Rightarrow> js_error + jsval" where
  "get_prop JUndefined k = Inl TypeError"
| "get_prop JNull k = Inl TypeError"
| "get_prop (JObj kvs) k = Inr (case map_of kvs k of Some v \<Rightarrow> v | None \<Rightarrow> JUndefined)"
| "get_prop (JArr xs) k =
     Inr (if k = ''length'' then JNum (real (length xs))
          else case map_of (index_props xs) k of Some v \<Rightarrow> v | None \<Rightarrow> JUndefined)"
| "get_prop (JStr s) k =
     Inr (if k = ''length'' then JNum (real (length s))
          else case map_of (index_props s) k of Some c \<Rightarrow> JStr [c] | None \<Rightarrow> JUndefined)"
| "get_prop (JBool b) k = Inr JUndefined"
| "get_prop (JNum n) k = Inr JUndefined"

text \<open>
  \<open>Object.keys\<close>: a \<open>TypeError\<close> on \<open>undefined\<close> and \<open>null\<close>, the property names of an
  object, the indices of an array or a string, nothing for a number or a boolean.
\<close>

fun object_keys :: "jsval \<Rightarrow> js_error + string list" where
  "object_keys JUndefined = Inl TypeError"
| "object_keys JNull = Inl TypeError"
| "object_keys (JObj kvs) = Inr (map fst kvs)"
| "object_keys (JArr xs) = Inr (map fst (index_props xs))"
| "object_keys (JStr s) = Inr (map fst (index_props s))"
| "object_keys (JBool b) = Inr []"
| "object_keys (JNum n) = Inr []"

text \<open>\<open>Math.round\<close> rounds to the nearest integer, a half towards plus infinity.\<close>

definition Math_round :: "real \<Rightarrow> int" where
  "Math_round x = \<lfloor>x + 1 / 2\<rfloor>"

text \<open>
  A JSX child written \<open>{cond && <Element/>}\<close>. When the condition is truthy the child is
  the element. When it is falsy the child is the falsy value itself, and React draws
  nothing for \<open>false\<close>, \<open>true\<close>, \<open>null\<close>, \<open>undefined\<close> and the empty string, but draws a
  number as its digits (the falsy number 0 as \<open>0\<close>).
\<close>

datatype 'a slot = Skipped jsval | Shown 'a

definition guarded :: "jsval \<Rightarrow> 'a \<Rightarrow> 'a slot" where
  "guarded cond element = (if truthy cond then Shown element else Skipped cond)"

fun draws_nothing :: "'a slot \<Rightarrow> bool" where
  "draws_nothing (Shown element) = False"
| "draws_nothing (Skipped (JNum n)) = False"
| "draws_nothing (Skipped (JStr s)) = (s = [])"
| "draws_nothing (Skipped v) = True"

subsection \<open>The data of \<open>services/api\<close>\<close>

text \<open>
  The interfaces \<open>Source\<close> and \<open>Message\<close>. Fields are prefixed (\<open>s_\<close>, \<open>m_\<close>) because both
  interfaces have a \<open>content\<close>. The interface declares \<open>filename\<close>, \<open>content\<close> and
  \<open>relevance_score\<close> of a source as present; \<open>MessageBubble\<close> guards each of them against
  absence, so the model lets them be absent (\<open>None\<close> is \<open>undefined\<close>). An absent
  \<open>chart_data\<close> is \<open>JUndefined\<close>.
\<close>

datatype role = User | Assistant

record source =
  s_document_id :: string
  s_filename :: "string option"
  s_chunk_index :: int
  s_content :: "string option"
  s_relevance_score :: "real option"

record message =
  m_id :: string
  m_role :: role
  m_content :: string
  m_created_at :: string
  m_sources :: "source list option"
  m_confidence :: "real option"
  m_chart_id :: "string option"
  m_chart_data :: jsval

subsection \<open>ChartVisualizer\<close>

text \<open>
  What \<open>renderChart\<close> returns: a line or bar chart over the rows with one series per data
  key, or a pie chart over the rows with the single \<open>dataKey\<close> \<open>dataKeys[0]\<close> (\<open>undefined\<close>
  when there is none) and one \<open>Cell\<close> per row. \<open>chartData.map\<close> exists on arrays only.
\<close>

datatype chart_body =
    LineChart jsval "string list"
  | PieChart jsval "string option" nat
  | BarChart jsval "string list"

record chart_view =
  cv_title :: "jsval slot"
  cv_chart :: chart_body

definition renderChart :: "jsval \<Rightarrow> jsval \<Rightarrow> string list \<Rightarrow> js_error + chart_body" where
  "renderChart type chartData dataKeys =
     (if type = JStr ''line'' then Inr (LineChart chartData dataKeys)
      else if type = JStr ''pie'' then
        (case chartData of
           JArr rows \<Rightarrow>
             Inr (PieChart chartData (case dataKeys of [] \<Rightarrow> None | k # _ \<Rightarrow> Some k) (length rows))
         | _ \<Rightarrow> Inl TypeError)
      else Inr (BarChart chartData dataKeys))"

text \<open>
  The component: \<open>null\<close> (here \<open>None\<close>) when \<open>data\<close> or \<open>data.data\<close> is falsy or
  \<open>data.data.length === 0\<close>; otherwise the keys of the first row other than \<open>name\<close> are
  the data keys. The parameter \<open>type\<close> defaults to \<open>bar\<close> when it is \<open>undefined\<close>.
\<close>

definition ChartVisualizer :: "jsval \<Rightarrow> jsval \<Rightarrow> jsval \<Rightarrow> js_error + chart_view option" where
  "ChartVisualizer data title type0 =
     (let type = (if type0 = JUndefined then JStr ''bar'' else type0) in
      if \<not> truthy data then Inr None
      else case get_prop data ''data'' of
        Inl e \<Rightarrow> Inl e
      | Inr chartData \<Rightarrow>
          if \<not> truthy chartData then Inr None
          else case get_prop chartData ''length'' of
            Inl e \<Rightarrow> Inl e
          | Inr len \<Rightarrow>
              if len = JNum 0 then Inr None
              else case get_prop chartData ''0'' of
                Inl e \<Rightarrow> Inl e
              | Inr row \<Rightarrow>
                  (case object_keys row of
                     Inl e \<Rightarrow> Inl e
                   | Inr keys \<Rightarrow>
                       (case renderChart type chartData (filter (\<lambda>key. key \<noteq> ''name'') keys) of
                          Inl e \<Rightarrow> Inl e
                        | Inr chart \<Rightarrow>
                            Inr (Some \<lparr>cv_title = guarded title title, cv_chart = chart\<rparr>))))"

subsection \<open>MessageBubble\<close>

definition getConfidenceColor :: "real option \<Rightarrow> string" where
  "getConfidenceColor confidence =
     (case confidence of
        None \<Rightarrow> ''default''
      | Some c \<Rightarrow>
          if c = 0 then ''default''
          else if c \<ge> 0.7 then ''success''
          else if c \<ge> 0.4 then ''warning''
          else ''error'')"

definition getConfidenceLabel :: "real option \<Rightarrow> string" where
  "getConfidenceLabel confidence =
     (case confidence of
        None \<Rightarrow> ''''
      | Some c \<Rightarrow>
          if c = 0 then ''''
          else show_int (Math_round (c * 100)) @ ''% confident'')"

text \<open>The values \<open>hasSources\<close> and \<open>hasChart\<close>, as the chains of \<open>&&\<close> compute them.\<close>

definition hasSources :: "message \<Rightarrow> jsval" where
  "hasSources message =
     (if m_role message = User then JBool False
      else case m_sources message of
        None \<Rightarrow> JUndefined
      | Some srcs \<Rightarrow> JBool (length srcs > 0))"

definition hasChart :: "message \<Rightarrow> jsval" where
  "hasChart message = (if m_role message = User then JBool False else m_chart_data message)"

text \<open>
  One entry of the collapsible source list: the file name or \<open>Source n\<close>, the relevance
  child \<open>{source.relevance_score && ...}\<close>, and the first 200 characters of the content
  followed by an ellipsis when there are more.
\<close>

record source_view =
  sv_name :: string
  sv_relevance :: "string slot"
  sv_excerpt :: string

definition relevanceSlot :: "real option \<Rightarrow> string slot" where
  "relevanceSlot score =
     (case score of
        None \<Rightarrow> Skipped JUndefined
      | Some r \<Rightarrow> guarded (JNum r) (show_int (Math_round (r * 100)) @ ''% relevant''))"

definition sourceView :: "source \<Rightarrow> nat \<Rightarrow> source_view" where
  "sourceView src idx =
     \<lparr>sv_name =
        (case s_filename src of
           None \<Rightarrow> ''Source '' @ show_nat (idx + 1)
         | Some f \<Rightarrow> if f \<noteq> [] then f else ''Source '' @ show_nat (idx + 1)),
      sv_relevance = relevanceSlot (s_relevance_score src),
      sv_excerpt =
        (case s_content src of
           None \<Rightarrow> ''''
         | Some c \<Rightarrow> take 200 c @ (if c \<noteq> [] \<and> length c > 200 then ''...'' else ''''))\<rparr>"

record confidence_chip =
  cc_label :: string
  cc_color :: string

record sources_chip =
  sc_label :: string
  sc_expanded :: bool

record meta_row =
  mr_time :: string
  mr_confidence :: "confidence_chip slot"
  mr_sources :: "sources_chip slot"

record sources_panel =
  sp_open :: bool
  sp_items :: "source_view list"

text \<open>
  The bubble. \<open>b_time_user\<close> is the caption under a user message; times are shown through
  the browser's \<open>toLocaleTimeString\<close>, so the description keeps \<open>created_at\<close> itself.
  \<open>sourcesOpen\<close> is the component's own state.
\<close>

record bubble_view =
  b_isUser :: bool
  b_content :: string
  b_chart :: "chart_view option slot"
  b_meta :: "meta_row slot"
  b_time_user :: "string slot"
  b_sources :: "sources_panel slot"

definition metaRow :: "message \<Rightarrow> bool \<Rightarrow> meta_row" where
  "metaRow message sourcesOpen =
     \<lparr>mr_time = m_created_at message,
      mr_confidence =
        guarded (JBool (case m_confidence message of None \<Rightarrow> False | Some c \<Rightarrow> c > 0))
          \<lparr>cc_label = getConfidenceLabel (m_confidence message),
           cc_color = getConfidenceColor (m_confidence message)\<rparr>,
      mr_sources =
        guarded (hasSources message)
          (let n = (case m_sources message of None \<Rightarrow> 0 | Some srcs \<Rightarrow> length srcs) in
           \<lparr>sc_label = show_nat n @ '' source'' @ (if n > 1 then ''s'' else ''''),
            sc_expanded = sourcesOpen\<rparr>)\<rparr>"

definition sourcesPanel :: "message \<Rightarrow> bool \<Rightarrow> sources_panel" where
  "sourcesPanel message sourcesOpen =
     \<lparr>sp_open = sourcesOpen,
      sp_items =
        (case m_sources message of
           None \<Rightarrow> []
         | Some srcs \<Rightarrow> map (\<lambda>(src, idx). sourceView src idx) (zip srcs [0..<length srcs]))\<rparr>"

definition MessageBubble :: "message \<Rightarrow> bool \<Rightarrow> js_error + bubble_view" where
  "MessageBubble message sourcesOpen =
     (let isUser = (m_role message = User) in
      case
        (if truthy (hasChart message) then
           (case get_prop (m_chart_data message) ''title'' of
              Inl e \<Rightarrow> Inl e
            | Inr title \<Rightarrow>
                (case get_prop (m_chart_data message) ''type'' of
                   Inl e \<Rightarrow> Inl e
                 | Inr type \<Rightarrow>
                     (case ChartVisualizer (m_chart_data message)
                             (js_or title (JStr ''Data Visualization''))
                             (js_or type (JStr ''bar'')) of
                        Inl e \<Rightarrow> Inl e
                      | Inr chart \<Rightarrow> Inr (Shown chart))))
         else Inr (Skipped (hasChart message)))
      of
        Inl e \<Rightarrow> Inl e
      | Inr chart \<Rightarrow>
          Inr \<lparr>b_isUser = isUser,
               b_content = m_content message,
               b_chart = chart,
               b_meta = guarded (JBool (\<not> isUser)) (metaRow message sourcesOpen),
               b_time_user = guarded (JBool isUser) (m_created_at message),
               b_sources = guarded (hasSources message) (sourcesPanel message sourcesOpen)\<rparr>)"

subsection \<open>DocumentList: the status chip\<close>

text \<open>
  \<open>getStatusIcon\<close> and \<open>getStatusColor\<close> are two \<open>switch\<close> statements over the status
  string. The icon is one of three Material icons or \<open>null\<close>.
\<close>

datatype status_icon = CheckCircleIcon | HourglassEmptyIcon | ErrorIcon

definition getStatusIcon :: "string \<Rightarrow> status_icon option" where
  "getStatusIcon status =
     (if status = ''ready'' then Some CheckCircleIcon
      else if status = ''processing'' then Some HourglassEmptyIcon
      else if status = ''failed'' then Some ErrorIcon
      else None)"

definition getStatusColor :: "string \<Rightarrow> string" where
  "getStatusColor status =
     (if status = ''ready'' then ''success''
      else if status = ''processing'' then ''warning''
      else if status = ''failed'' then ''error''
      else ''default'')"

text \<open>
  The chip of one document: its label is the status itself, its colour and icon come from
  the two functions (\<open>icon={getStatusIcon(doc.status) || undefined}\<close>: no icon when the
  function returns \<open>null\<close>).
\<close>

record status_chip =
  chip_label :: string
  chip_color :: string
  chip_icon :: "status_icon option"

definition statusChip :: "string \<Rightarrow> status_chip" where
  "statusChip status =
     \<lparr>chip_label = status, chip_color = getStatusColor status, chip_icon = getStatusIcon status\<rparr>"

subsection \<open>ChatInterface: the input row\<close>

text \<open>
  A JavaScript string is a sequence of UTF-16 code units. Where the code looks inside a
  string (\<open>trim\<close>, \<open>toLowerCase\<close>, \<open>includes\<close>) the model has the code units; identifiers,
  URLs and fixed texts, which the code only compares, joins and passes on, stay \<open>string\<close>s.
\<close>

type_synonym code_unit = "16 word"

type_synonym js_string = "code_unit list"

text \<open>
  \<open>String.prototype.trim\<close> removes white space and line terminators from both ends. White
  space is TAB, VT, FF, U+FEFF and the space separators of Unicode (U+0020, U+00A0, U+1680,
  U+2000 to U+200A, U+202F, U+205F, U+3000); the line terminators are LF, CR, U+2028 and
  U+2029. Each is one code unit.
\<close>

definition js_whitespace :: "code_unit \<Rightarrow> bool" where
  "js_whitespace u =
     (u \<in> set [0x0009, 0x000B, 0x000C, 0xFEFF,
                0x0020, 0x00A0, 0x1680,
                0x2000, 0x2001, 0x2002, 0x2003, 0x2004, 0x2005, 0x2006, 0x2007, 0x2008,
                0x2009, 0x200A, 0x202F, 0x205F, 0x3000,
                0x000A, 0x000D, 0x2028, 0x2029])"

definition trim :: "js_string \<Rightarrow> js_string" where
  "trim s = rev (dropWhile js_whitespace (rev (dropWhile js_whitespace s)))"

text \<open>
  \<open>handleSend\<close> reads the state \<open>input\<close> and the prop \<open>loading\<close>. It returns the
  argument of the call of \<open>onSendMessage\<close>, if it makes one, and the new \<open>input\<close>.
\<close>

definition handleSend :: "js_string \<Rightarrow> bool \<Rightarrow> js_string option \<times> js_string" where
  "handleSend input loading =
     (if trim input \<noteq> [] \<and> \<not> loading then (Some (trim input), []) else (None, input))"

text \<open>\<open>handleKeyDown\<close>: Enter without Shift sends, every other key leaves the state alone.\<close>

definition handleKeyDown ::
  "string \<Rightarrow> bool \<Rightarrow> js_string \<Rightarrow> bool \<Rightarrow> js_string option \<times> js_string" where
  "handleKeyDown key shiftKey input loading =
     (if key = ''Enter'' \<and> \<not> shiftKey then handleSend input loading else (None, input))"

text \<open>The \<open>disabled\<close> prop of the send button.\<close>

definition sendDisabled :: "js_string \<Rightarrow> bool \<Rightarrow> bool" where
  "sendDisabled input loading = (\<not> (trim input \<noteq> []) \<or> loading)"

subsection \<open>ConversationSidebar: the search filter\<close>

record conversation =
  c_id :: string
  c_title :: js_string
  c_created_at :: string
  c_updated_at :: string



subsection \<open>The requests of \<open>services/api\<close>\<close>

text \<open>
  Each wrapper builds one request for the axios instance. A request is its method, its URL
  under the base URL and its body; an uploaded file is represented by its name.
\<close>

datatype form_value = FormFile string | FormField string

datatype http_body = NoBody | FormData "(string \<times> form_value) list" | JsonBody jsval

record http_request =
  rq_method :: string
  rq_url :: string
  rq_body :: http_body

text \<open>
  \<open>encodeURIComponent\<close>: letters, digits and \<open>- _ . ! ~ * ' ( )\<close> stay; every other byte
  of the UTF-8 text becomes \<open>%\<close> and two hexadecimal digits.
\<close>

definition uri_unreserved :: "char \<Rightarrow> bool" where
  "uri_unreserved c =
     (c \<in> set (''ABCDEFGHIJKLMNOPQRSTUVWXYZabcdefghijklmnopqrstuvwxyz0123456789-_.!~*()''
               @ [CHR 0x27]))"

definition hex_digit :: "nat \<Rightarrow> char" where
  "hex_digit d = ''0123456789ABCDEF'' ! (d mod 16)"

definition encode_byte :: "char \<Rightarrow> string" where
  "encode_byte c =
     (if uri_unreserved c then [c]
      else [CHR ''%'', hex_digit (of_char c div 16), hex_digit (of_char c mod 16)])"

definition encodeURIComponent :: "string \<Rightarrow> string" where
  "encodeURIComponent s = concat (map encode_byte s)"

definition uploadDocument :: "string \<Rightarrow> string \<Rightarrow> http_request" where
  "uploadDocument file sessionId =
     \<lparr>rq_method = ''POST'', rq_url = ''/upload'',
      rq_body = FormData [(''file'', FormFile file), (''session_id'', FormField sessionId)]\<rparr>"

definition sendMessage :: "string \<Rightarrow> string \<Rightarrow> string \<Rightarrow> http_request" where
  "sendMessage msg conversationId sessionId =
     \<lparr>rq_method = ''POST'', rq_url = ''/chat'',
      rq_body = JsonBody (JObj [(''message'', JStr msg),
                                (''conversation_id'', JStr conversationId),
                                (''session_id'', JStr sessionId)])\<rparr>"

definition getConversationHistory :: "string \<Rightarrow> http_request" where
  "getConversationHistory conversationId =
     \<lparr>rq_method = ''GET'', rq_url = ''/conversations/'' @ conversationId @ ''/messages'',
      rq_body = NoBody\<rparr>"

definition getDocuments :: "string \<Rightarrow> http_request" where
  "getDocuments sessionId =
     \<lparr>rq_method = ''GET'', rq_url = ''/documents/'' @ sessionId, rq_body = NoBody\<rparr>"

definition createConversation :: "string \<Rightarrow> http_request" where
  "createConversation sessionId =
     \<lparr>rq_method = ''POST'',
      rq_url = ''/conversations?session_id='' @ encodeURIComponent sessionId,
      rq_body = NoBody\<rparr>"

definition getConversations :: "string \<Rightarrow> http_request" where
  "getConversations sessionId =
     \<lparr>rq_method = ''GET'', rq_url = ''/sessions/'' @ sessionId @ ''/conversations'',
      rq_body = NoBody\<rparr>"

subsection \<open>App: session identifier and state\<close>

text \<open>
  \<open>localStorage\<close> is a map from keys to strings. \<open>getSessionId\<close> takes the storage and
  the value the next call of \<open>uuidv4\<close> would return, and gives the identifier and the
  storage afterwards. \<open>if (stored)\<close> is false for a missing key and for the empty string.
\<close>

definition getSessionId :: "(string \<rightharpoonup> string) \<Rightarrow> string \<Rightarrow> string \<times> (string \<rightharpoonup> string)" where
  "getSessionId localStorage uuid =
     (case localStorage ''rag_session_id'' of
        Some stored \<Rightarrow>
          if stored \<noteq> [] then (stored, localStorage)
          else (uuid, localStorage(''rag_session_id'' \<mapsto> uuid))
      | None \<Rightarrow> (uuid, localStorage(''rag_session_id'' \<mapsto> uuid)))"

text \<open>
  The state of \<open>App\<close> that the handlers below read and write. \<open>sessionId\<close> comes from
  \<open>useState(getSessionId)\<close>, which keeps no setter: no handler assigns it.
\<close>

record snackbar =
  sn_open :: bool
  sn_message :: string
  sn_severity :: string

record app_state =
  sessionId :: string
  conversationId :: "string option"
  messages :: "message list"
  uploading :: bool
  loading :: bool
  snackbar :: snackbar

text \<open>The initial values of the \<open>useState\<close> calls, run once when \<open>App\<close> mounts.\<close>

definition App_initial :: "(string \<rightharpoonup> string) \<Rightarrow> string \<Rightarrow> app_state \<times> (string \<rightharpoonup> string)" where
  "App_initial localStorage uuid =
     (case getSessionId localStorage uuid of
        (sid, localStorage') \<Rightarrow>
          (\<lparr>sessionId = sid, conversationId = None, messages = [], uploading = False,
            loading = False,
            snackbar = \<lparr>sn_open = False, sn_message = [], sn_severity = ''info''\<rparr>\<rparr>,
           localStorage'))"

definition showSnackbar :: "string \<Rightarrow> string \<Rightarrow> app_state \<Rightarrow> app_state" where
  "showSnackbar msg severity st =
     st\<lparr>snackbar := \<lparr>sn_open = True, sn_message = msg, sn_severity = severity\<rparr>\<rparr>"

text \<open>
  The error of a rejected request. Of the error the handlers read
  \<open>error.response?.data?.detail\<close> only: \<open>None\<close> when a link of that chain is missing, as
  for a network error without a response. \<open>detail || text\<close> takes the text for a missing
  and for an empty detail.
\<close>

record request_error =
  e_detail :: "string option"

definition detail_or :: "request_error \<Rightarrow> string \<Rightarrow> string" where
  "detail_or err fallback =
     (case e_detail err of
        Some detail \<Rightarrow> if detail \<noteq> [] then detail else fallback
      | None \<Rightarrow> fallback)"

text \<open>The requests of the two loaders (their results go to state that is not modelled).\<close>

definition loadDocuments :: "app_state \<Rightarrow> http_request" where
  "loadDocuments st = getDocuments (sessionId st)"

definition loadConversations :: "app_state \<Rightarrow> http_request" where
  "loadConversations st = getConversations (sessionId st)"

text \<open>
  The requests of the mount effect \<open>init\<close>, in order, given the outcome of its own call of
  \<open>getConversations\<close>: the two loaders, that call, and then the history of the first
  conversation, or a new conversation when there is none. A failure ends the effect.
\<close>

definition init_requests :: "request_error + conversation list \<Rightarrow> app_state \<Rightarrow> http_request list" where
  "init_requests outcome st =
     [loadDocuments st, loadConversations st, getConversations (sessionId st)] @
     (case outcome of
        Inl err \<Rightarrow> []
      | Inr [] \<Rightarrow> [createConversation (sessionId st)]
      | Inr (lastConv # _) \<Rightarrow> [getConversationHistory (c_id lastConv)])"

text \<open>
  \<open>handleFileUpload\<close>, before and after \<open>await uploadDocument(...)\<close>. On success it shows
  a snack bar and schedules \<open>loadDocuments\<close>; on failure it shows the error; the
  \<open>finally\<close> block clears \<open>uploading\<close>.
\<close>

definition handleFileUpload_begin :: "string \<Rightarrow> app_state \<Rightarrow> app_state \<times> http_request" where
  "handleFileUpload_begin file st =
     (st\<lparr>uploading := True\<rparr>, uploadDocument file (sessionId st))"

definition handleFileUpload_end ::
  "string \<Rightarrow> request_error + unit \<Rightarrow> app_state \<Rightarrow> app_state \<times> http_request option" where
  "handleFileUpload_end file outcome st =
     (case outcome of
        Inr uploaded \<Rightarrow>
          ((showSnackbar (file @ '' uploaded successfully!'') ''success'' st)\<lparr>uploading := False\<rparr>,
           Some (loadDocuments st))
      | Inl err \<Rightarrow>
          ((showSnackbar (detail_or err ''Upload failed'') ''error'' st)\<lparr>uploading := False\<rparr>,
           None))"

text \<open>
  \<open>handleNewConversation\<close>, before and after \<open>await createConversation(...)\<close>. On success
  it selects the new conversation, empties the message list, reloads the conversations and
  shows a snack bar; a failure is logged only.
\<close>

definition handleNewConversation_begin :: "app_state \<Rightarrow> http_request" where
  "handleNewConversation_begin st = createConversation (sessionId st)"

definition handleNewConversation_end ::
  "request_error + conversation \<Rightarrow> app_state \<Rightarrow> app_state \<times> http_request option" where
  "handleNewConversation_end outcome st =
     (case outcome of
        Inr conv \<Rightarrow>
          (showSnackbar ''New conversation started'' ''info''
             (st\<lparr>conversationId := Some (c_id conv), messages := []\<rparr>),
           Some (loadConversations st))
      | Inl err \<Rightarrow> (st, None))"

subsection \<open>App: handleSendMessage\<close>

text \<open>The response of \<open>POST /chat\<close>.\<close>

record chat_response =
  r_message :: message
  r_sources :: "source list option"
  r_chart_data :: jsval

text \<open>
  The handler runs in two parts, before and after \<open>await sendMessage(...)\<close>. Every
  \<open>setMessages\<close> is a functional update \<open>prev => [...prev, m]\<close>, applied to the list at the
  time of the update. \<open>uuid\<close> and \<open>now\<close> are the values \<open>uuidv4()\<close> and
  \<open>new Date().toISOString()\<close> return at that point.

  The first part: without a conversation it shows a snack bar and returns; otherwise it
  appends the user message, sets \<open>loading\<close> and issues the request.
\<close>

definition userMessage :: "string \<Rightarrow> string \<Rightarrow> string \<Rightarrow> message" where
  "userMessage uuid now messageText =
     \<lparr>m_id = uuid, m_role = User, m_content = messageText, m_created_at = now,
      m_sources = None, m_confidence = None, m_chart_id = None, m_chart_data = JUndefined\<rparr>"

definition handleSendMessage_begin ::
  "string \<Rightarrow> string \<Rightarrow> string \<Rightarrow> app_state \<Rightarrow> app_state \<times> http_request option" where
  "handleSendMessage_begin messageText uuid now st =
     (case conversationId st of
        None \<Rightarrow> (showSnackbar ''Chat not initialized'' ''error'' st, None)
      | Some cid \<Rightarrow>
          if cid = [] then (showSnackbar ''Chat not initialized'' ''error'' st, None)
          else (st\<lparr>messages := messages st @ [userMessage uuid now messageText], loading := True\<rparr>,
                Some (sendMessage messageText cid (sessionId st))))"

text \<open>
  The second part, on the outcome of the request. \<open>response.sources || ... || []\<close>: an
  array is truthy even when it is empty. The \<open>finally\<close> block clears \<open>loading\<close>. On
  success the handler also starts \<open>loadConversations\<close>.
\<close>

definition assistantMsg :: "chat_response \<Rightarrow> message" where
  "assistantMsg response =
     (r_message response)
       \<lparr>m_sources :=
          Some (case r_sources response of
                  Some srcs \<Rightarrow> srcs
                | None \<Rightarrow> (case m_sources (r_message response) of Some srcs \<Rightarrow> srcs | None \<Rightarrow> [])),
        m_chart_data := js_or (r_chart_data response) (m_chart_data (r_message response))\<rparr>"

definition errorMsg :: "string \<Rightarrow> string \<Rightarrow> request_error \<Rightarrow> message" where
  "errorMsg uuid now err =
     \<lparr>m_id = uuid, m_role = Assistant,
      m_content = detail_or err ''Failed to get response. Is the backend running?'',
      m_created_at = now,
      m_sources = None, m_confidence = None, m_chart_id = None, m_chart_data = JUndefined\<rparr>"

definition handleSendMessage_end ::
  "request_error + chat_response \<Rightarrow> string \<Rightarrow> string \<Rightarrow> app_state
     \<Rightarrow> app_state \<times> http_request option" where
  "handleSendMessage_end outcome uuid now st =
     (case outcome of
        Inr response \<Rightarrow>
          (st\<lparr>messages := messages st @ [assistantMsg response], loading := False\<rparr>,
           Some (loadConversations st))
      | Inl err \<Rightarrow>
          (st\<lparr>messages := messages st @ [errorMsg uuid now err], loading := False\<rparr>, None))"

text \<open>
  The whole handler when no other update reaches the state while the request is in
  flight. It returns the final state and the requests issued, in order.
\<close>

definition handleSendMessage ::
  "string \<Rightarrow> string \<Rightarrow> string \<Rightarrow> request_error + chat_response \<Rightarrow> string \<Rightarrow> string
     \<Rightarrow> app_state \<Rightarrow> app_state \<times> http_request list" where
  "handleSendMessage messageText uuid1 now1 outcome uuid2 now2 st =
     (case handleSendMessage_begin messageText uuid1 now1 st of
        (st1, None) \<Rightarrow> (st1, [])
      | (st1, Some request) \<Rightarrow>
          (case handleSendMessage_end outcome uuid2 now2 st1 of
             (st2, None) \<Rightarrow> (st2, [request])
           | (st2, Some reload) \<Rightarrow> (st2, [request, reload])))"

section \<open>Properties\<close>

subsection \<open>JavaScript values and strings\<close>

text \<open>A decimal numeral has digits only, so no index of an array is called \<open>data\<close>.\<close>

lemma digit_char_digit: "digit_char d \<in> set ''0123456789''"
proof -
  have "d mod 10 < length ''0123456789''" by simp
  then show ?thesis
    unfolding digit_char_def by (rule nth_mem)
qed

lemma show_nat_digits: "set (show_nat n) \<subseteq> set ''0123456789''"
proof (induction n rule: show_nat.induct)
  case (1 n)
  show ?case
  proof (cases "n < 10")
    case True
    then show ?thesis
      using digit_char_digit [of n] by (simp add: show_nat.simps [of n])
  next
    case False
    then show ?thesis
      using "1.IH" digit_char_digit [of "n mod 10"] by (simp add: show_nat.simps [of n])
  qed
qed

lemma index_props_no_name:
  assumes "\<not> set k \<subseteq> set ''0123456789''"
  shows "map_of (index_props xs) k = None"
proof -
  have "k \<notin> set (map show_nat [0..<length xs])"
    using assms show_nat_digits by auto
  then have "k \<notin> fst ` set (index_props xs)"
    unfolding index_props_def by (metis in_set_zipE imageE prod.collapse)
  then show ?thesis
    by (simp add: map_of_eq_None_iff)
qed

lemma index_props_first [simp]: "map_of (index_props (x # xs)) ''0'' = Some x"
  by (simp add: index_props_def upt_conv_Cons show_nat.simps [of 0] digit_char_def del: upt_Suc)

lemma get_prop_first: "get_prop (JArr (x # xs)) ''0'' = Inr x"
  by simp

lemma get_prop_array_data [simp]: "get_prop (JArr xs) ''data'' = Inr JUndefined"
  by (simp add: index_props_no_name)

lemma get_prop_string_data [simp]: "get_prop (JStr s) ''data'' = Inr JUndefined"
  by (simp add: index_props_no_name)

lemma get_prop_truthy: "truthy v \<Longrightarrow> \<exists>w. get_prop v k = Inr w"
  by (cases v) auto





lemma all_dropWhile: "(\<forall>x\<in>set (dropWhile P xs). P x) \<longleftrightarrow> (\<forall>x\<in>set xs. P x)"
  by (induction xs) auto

lemma last_dropWhile: "dropWhile P xs \<noteq> [] \<Longrightarrow> last (dropWhile P xs) = last xs"
  by (induction xs) (auto split: if_splits)

text \<open>\<open>trim\<close> gives the empty string exactly on strings of white space.\<close>

lemma trim_empty_iff: "trim s = [] \<longleftrightarrow> list_all js_whitespace s"
  by (simp add: trim_def dropWhile_eq_Nil_conv list_all_iff all_dropWhile)

text \<open>A trimmed string neither starts nor ends with white space.\<close>

lemma trim_no_outer_space:
  assumes "trim s \<noteq> []"
  shows "\<not> js_whitespace (hd (trim s)) \<and> \<not> js_whitespace (last (trim s))"
proof -
  let ?ys = "dropWhile js_whitespace s"
  let ?zs = "dropWhile js_whitespace (rev ?ys)"
  from assms have zs: "?zs \<noteq> []" by (simp add: trim_def)
  then have ys: "?ys \<noteq> []" by (cases "?ys") auto
  have "last (trim s) = hd ?zs"
    using zs by (simp add: trim_def last_rev)
  moreover have "\<not> js_whitespace (hd ?zs)"
    using zs by (rule hd_dropWhile)
  moreover have "hd (trim s) = last ?zs"
    using zs by (simp add: trim_def hd_rev)
  moreover have "last ?zs = last (rev ?ys)"
    using zs by (rule last_dropWhile)
  moreover have "last (rev ?ys) = hd ?ys"
    using ys by (simp add: last_rev)
  moreover have "\<not> js_whitespace (hd ?ys)"
    using ys by (rule hd_dropWhile)
  ultimately show ?thesis by simp
qed

subsection \<open>\<open>encodeURIComponent\<close> loses nothing\<close>

lemma hex_digit_inj:
  assumes "a < 16" and "b < 16" and "hex_digit a = hex_digit b"
  shows "a = b"
proof -
  have "distinct ''0123456789ABCDEF''" by simp
  moreover have "a < length ''0123456789ABCDEF''" "b < length ''0123456789ABCDEF''"
    using assms by simp_all
  moreover have "''0123456789ABCDEF'' ! a = ''0123456789ABCDEF'' ! b"
    using assms by (simp add: hex_digit_def)
  ultimately show "a = b"
    using nth_eq_iff_index_eq by blast
qed

lemma percent_reserved: "\<not> uri_unreserved CHR ''%''"
  by (simp add: uri_unreserved_def)

lemma encode_byte_nonempty: "encode_byte c \<noteq> []"
  by (simp add: encode_byte_def)

lemma hex_pair_inj:
  assumes "hex_digit (of_char c div 16) = hex_digit (of_char d div 16)"
      and "hex_digit (of_char c mod 16) = hex_digit (of_char d mod 16)"
  shows "c = d"
proof -
  have lc: "(of_char c :: nat) < 256" and ld: "(of_char d :: nat) < 256"
    by simp_all
  have "(of_char c :: nat) div 16 = of_char d div 16"
    using assms(1) lc ld by (intro hex_digit_inj) (simp_all add: less_mult_imp_div_less)
  moreover have "(of_char c :: nat) mod 16 = of_char d mod 16"
    using assms(2) by (intro hex_digit_inj) simp_all
  ultimately have "(of_char c :: nat) = of_char d"
    by (metis div_mult_mod_eq)
  then show ?thesis by simp
qed

lemma encodeURIComponent_inj: "encodeURIComponent a = encodeURIComponent b \<Longrightarrow> a = b"
proof (induction a arbitrary: b)
  case Nil
  then show ?case
    by (cases b) (simp_all add: encodeURIComponent_def encode_byte_nonempty)
next
  case (Cons c cs)
  show ?case
  proof (cases b)
    case Nil
    with Cons.prems show ?thesis
      by (simp add: encodeURIComponent_def encode_byte_nonempty)
  next
    case (Cons d ds)
    have eq: "encode_byte c @ encodeURIComponent cs = encode_byte d @ encodeURIComponent ds"
      using Cons.prems Cons by (simp add: encodeURIComponent_def)
    have "c = d \<and> encodeURIComponent cs = encodeURIComponent ds"
      using eq percent_reserved hex_pair_inj [of c d]
      by (auto simp: encode_byte_def split: if_splits)
    with Cons.IH Cons show ?thesis by simp
  qed
qed

text \<open>An identifier of unreserved characters, as every UUID is, is sent as it is.\<close>

lemma encodeURIComponent_unreserved: "list_all uri_unreserved s \<Longrightarrow> encodeURIComponent s = s"
  by (induction s) (auto simp: encodeURIComponent_def encode_byte_def)

subsection \<open>ChartVisualizer returns \<open>null\<close> on an empty payload\<close>

lemma ChartVisualizer_null:
  assumes "cd = JUndefined \<or> cd = JNull
           \<or> get_prop cd ''data'' = Inr JUndefined
           \<or> get_prop cd ''data'' = Inr JNull
           \<or> get_prop cd ''data'' = Inr (JArr [])"
  shows "ChartVisualizer cd title type = Inr None"
  using assms by (cases "truthy cd") (auto simp: ChartVisualizer_def Let_def)


text \<open>
  A first row that is \<open>null\<close> or \<open>undefined\<close> has no keys to read, and every other row has:
  on such a row the component throws.
\<close>

lemma object_keys_defined:
  "(\<exists>keys. object_keys row = Inr keys) \<longleftrightarrow> row \<noteq> JNull \<and> row \<noteq> JUndefined"
  by (cases row) auto

lemma ChartVisualizer_null_row:
  "ChartVisualizer (JObj [(''data'', JArr (JNull # rows))]) title type = Inl TypeError"
  by (simp add: ChartVisualizer_def)

subsection \<open>The message bubble\<close>

text \<open>
  C1. For every message with role \<open>user\<close>, whatever its other fields hold, \<open>hasSources\<close>
  and \<open>hasChart\<close> are \<open>false\<close> and the bubble shows the content and the time only: no
  chart, no metadata row (so no confidence chip and no sources chip) and no source list.
\<close>

theorem user_bubble_carries_no_evidence:
  assumes "m_role message = User"
  shows "hasSources message = JBool False \<and> hasChart message = JBool False \<and>
         MessageBubble message sourcesOpen =
           Inr \<lparr>b_isUser = True, b_content = m_content message,
                b_chart = Skipped (JBool False), b_meta = Skipped (JBool False),
                b_time_user = Shown (m_created_at message), b_sources = Skipped (JBool False)\<rparr>"
  using assms by (simp add: MessageBubble_def hasSources_def hasChart_def guarded_def)

theorem user_bubble_carries_no_evidence_witness:
  "MessageBubble
     \<lparr>m_id = ''u1'', m_role = User, m_content = ''What was the revenue?'',
      m_created_at = ''2024-05-01T10:00:00.000Z'',
      m_sources = Some [\<lparr>s_document_id = ''d1'', s_filename = Some ''report.pdf'',
                         s_chunk_index = 0, s_content = Some ''Revenue grew.'',
                         s_relevance_score = Some 0.9\<rparr>],
      m_confidence = Some 0.8, m_chart_id = None,
      m_chart_data = JObj [(''data'', JArr [JObj [(''name'', JStr ''Q1''), (''revenue'', JNum 10)]])]\<rparr>
     True
   = Inr \<lparr>b_isUser = True, b_content = ''What was the revenue?'',
          b_chart = Skipped (JBool False), b_meta = Skipped (JBool False),
          b_time_user = Shown ''2024-05-01T10:00:00.000Z'', b_sources = Skipped (JBool False)\<rparr>"
  using user_bubble_carries_no_evidence
    [of "\<lparr>m_id = ''u1'', m_role = User, m_content = ''What was the revenue?'',
          m_created_at = ''2024-05-01T10:00:00.000Z'',
          m_sources = Some [\<lparr>s_document_id = ''d1'', s_filename = Some ''report.pdf'',
                             s_chunk_index = 0, s_content = Some ''Revenue grew.'',
                             s_relevance_score = Some 0.9\<rparr>],
          m_confidence = Some 0.8, m_chart_id = None,
          m_chart_data = JObj [(''data'', JArr [JObj [(''name'', JStr ''Q1''), (''revenue'', JNum 10)]])]\<rparr>"
        True]
  by simp

text \<open>
  C2. For every assistant message whose \<open>chart_data\<close> is absent (\<open>undefined\<close> or \<open>null\<close>),
  or has no \<open>data\<close>, or has a \<open>data\<close> array of zero rows, \<open>ChartVisualizer\<close> returns
  \<open>null\<close> without an error, and \<open>MessageBubble\<close> renders, also without an error, with
  \<open>message.content\<close> unchanged; the chart child is the \<open>null\<close> of the component, or the
  falsy \<open>chart_data\<close> itself when the component is not called.
\<close>

theorem incomplete_chart_keeps_answer:
  assumes role: "m_role message = Assistant"
      and cd: "cd = m_chart_data message"
      and empty: "cd = JUndefined \<or> cd = JNull
           \<or> get_prop cd ''data'' = Inr JUndefined
           \<or> get_prop cd ''data'' = Inr JNull
           \<or> get_prop cd ''data'' = Inr (JArr [])"
  shows "ChartVisualizer cd title type = Inr None
       \<and> (\<exists>view. MessageBubble message sourcesOpen = Inr view
              \<and> b_content view = m_content message
              \<and> b_chart view = (if truthy cd then Shown None else Skipped cd))"
proof
  show "ChartVisualizer cd title type = Inr None"
    using empty by (rule ChartVisualizer_null)
next
  show "\<exists>view. MessageBubble message sourcesOpen = Inr view
              \<and> b_content view = m_content message
              \<and> b_chart view = (if truthy cd then Shown None else Skipped cd)"
  proof (cases "truthy cd")
    case False
    with role cd show ?thesis
      by (simp add: MessageBubble_def hasChart_def)
  next
    case True
    obtain ti where ti: "get_prop cd ''title'' = Inr ti"
      using get_prop_truthy [OF True] by blast
    obtain ty where ty: "get_prop cd ''type'' = Inr ty"
      using get_prop_truthy [OF True] by blast
    have "ChartVisualizer cd (js_or ti (JStr ''Data Visualization'')) (js_or ty (JStr ''bar''))
            = Inr None"
      using empty by (rule ChartVisualizer_null)
    with True role cd ti ty show ?thesis
      by (simp add: MessageBubble_def hasChart_def)
  qed
qed

theorem incomplete_chart_keeps_answer_witness:
  "ChartVisualizer (JObj [(''type'', JStr ''pie''), (''data'', JArr [])]) (JStr ''Sales'') (JStr ''pie'')
     = Inr None
   \<and> (\<exists>view. MessageBubble
          \<lparr>m_id = ''a1'', m_role = Assistant, m_content = ''Sales were flat.'',
           m_created_at = ''2024-05-01T10:00:05.000Z'', m_sources = Some [],
           m_confidence = None, m_chart_id = None,
           m_chart_data = JObj [(''type'', JStr ''pie''), (''data'', JArr [])]\<rparr> False = Inr view
        \<and> b_content view = ''Sales were flat.''
        \<and> b_chart view = Shown None)"
  using incomplete_chart_keeps_answer
    [of "\<lparr>m_id = ''a1'', m_role = Assistant, m_content = ''Sales were flat.'',
          m_created_at = ''2024-05-01T10:00:05.000Z'', m_sources = Some [],
          m_confidence = None, m_chart_id = None,
          m_chart_data = JObj [(''type'', JStr ''pie''), (''data'', JArr [])]\<rparr>"
        "JObj [(''type'', JStr ''pie''), (''data'', JArr [])]"
        "JStr ''Sales''" "JStr ''pie''" False]
  by simp




text \<open>
  A confidence of 0 and an absent confidence give the same colour, the same label and the
  same child of the metadata row, the boolean \<open>false\<close>, for which nothing is drawn. The chip
  is shown exactly for a confidence above 0, and the relevance percentage exactly for a
  relevance other than 0.
\<close>

lemma zero_confidence_like_absent:
  "getConfidenceColor (Some 0) = getConfidenceColor None
   \<and> getConfidenceLabel (Some 0) = getConfidenceLabel None
   \<and> mr_confidence (metaRow (message\<lparr>m_confidence := Some 0\<rparr>) sourcesOpen) = Skipped (JBool False)
   \<and> mr_confidence (metaRow (message\<lparr>m_confidence := None\<rparr>) sourcesOpen) = Skipped (JBool False)"
  by (simp add: getConfidenceColor_def getConfidenceLabel_def metaRow_def guarded_def)

lemma confidence_chip_shown_iff:
  "(\<exists>chip. mr_confidence (metaRow message sourcesOpen) = Shown chip)
     \<longleftrightarrow> (\<exists>c. m_confidence message = Some c \<and> c > 0)"
  by (cases "m_confidence message") (auto simp: metaRow_def guarded_def)

lemma relevance_percentage_shown_iff:
  "(\<exists>text. relevanceSlot score = Shown text) \<longleftrightarrow> (\<exists>r. score = Some r \<and> r \<noteq> 0)"
  by (cases score) (auto simp: relevanceSlot_def guarded_def)

text \<open>
  C9, the relevance half, evaluated on an assistant message with one source of relevance
  0 and on the same message with the score absent. With the score absent the child
  \<open>{source.relevance_score && ...}\<close> is \<open>undefined\<close> and nothing is drawn. With the score 0
  the child is the number 0, which is drawn as the digit 0 in the header of the source.
\<close>

theorem zero_relevance_draws_zero:
  "MessageBubble
     \<lparr>m_id = ''a1'', m_role = Assistant, m_content = ''No match'',
      m_created_at = ''2024-01-01T00:00:00.000Z'',
      m_sources = Some [\<lparr>s_document_id = ''d1'', s_filename = Some ''report.pdf'',
                         s_chunk_index = 0, s_content = Some ''text'',
                         s_relevance_score = Some 0\<rparr>],
      m_confidence = Some 0, m_chart_id = None, m_chart_data = JUndefined\<rparr> True
   = Inr \<lparr>b_isUser = False, b_content = ''No match'', b_chart = Skipped JUndefined,
          b_meta = Shown \<lparr>mr_time = ''2024-01-01T00:00:00.000Z'',
                          mr_confidence = Skipped (JBool False),
                          mr_sources = Shown \<lparr>sc_label = ''1 source'', sc_expanded = True\<rparr>\<rparr>,
          b_time_user = Skipped (JBool False),
          b_sources = Shown \<lparr>sp_open = True,
                             sp_items = [\<lparr>sv_name = ''report.pdf'',
                                          sv_relevance = Skipped (JNum 0),
                                          sv_excerpt = ''text''\<rparr>]\<rparr>\<rparr>
   \<and> draws_nothing (Skipped (JNum 0) :: string slot) = False
   \<and> MessageBubble
     \<lparr>m_id = ''a1'', m_role = Assistant, m_content = ''No match'',
      m_created_at = ''2024-01-01T00:00:00.000Z'',
      m_sources = Some [\<lparr>s_document_id = ''d1'', s_filename = Some ''report.pdf'',
                         s_chunk_index = 0, s_content = Some ''text'',
                         s_relevance_score = None\<rparr>],
      m_confidence = Some 0, m_chart_id = None, m_chart_data = JUndefined\<rparr> True
   = Inr \<lparr>b_isUser = False, b_content = ''No match'', b_chart = Skipped JUndefined,
          b_meta = Shown \<lparr>mr_time = ''2024-01-01T00:00:00.000Z'',
                          mr_confidence = Skipped (JBool False),
                          mr_sources = Shown \<lparr>sc_label = ''1 source'', sc_expanded = True\<rparr>\<rparr>,
          b_time_user = Skipped (JBool False),
          b_sources = Shown \<lparr>sp_open = True,
                             sp_items = [\<lparr>sv_name = ''report.pdf'',
                                          sv_relevance = Skipped JUndefined,
                                          sv_excerpt = ''text''\<rparr>]\<rparr>\<rparr>
   \<and> draws_nothing (Skipped JUndefined :: string slot) = True"
  by (simp add: MessageBubble_def hasChart_def hasSources_def guarded_def metaRow_def
      sourcesPanel_def sourceView_def relevanceSlot_def show_nat.simps digit_char_def)

subsection \<open>Sending a message\<close>

text \<open>Each part of the handler appends to the list it finds and touches no other message.\<close>

lemma handleSendMessage_begin_appends:
  assumes "conversationId st = Some cid" and "cid \<noteq> []"
  shows "handleSendMessage_begin messageText uuid now st =
           (st\<lparr>messages := messages st @ [userMessage uuid now messageText], loading := True\<rparr>,
            Some (sendMessage messageText cid (sessionId st)))"
  using assms by (simp add: handleSendMessage_begin_def)

lemma handleSendMessage_end_appends:
  "messages (fst (handleSendMessage_end outcome uuid now st)) =
     messages st @ [case outcome of Inl err \<Rightarrow> errorMsg uuid now err
                                  | Inr response \<Rightarrow> assistantMsg response]"
  by (cases outcome) (simp_all add: handleSendMessage_end_def)

lemma handleSendMessage_run:
  assumes "conversationId st = Some cid" and "cid \<noteq> []"
  shows "handleSendMessage messageText userUuid userNow outcome replyUuid replyNow st =
           (st\<lparr>messages :=
                 messages st @
                   [userMessage userUuid userNow messageText,
                    case outcome of Inl err \<Rightarrow> errorMsg replyUuid replyNow err
                                  | Inr response \<Rightarrow> assistantMsg response],
               loading := False\<rparr>,
            sendMessage messageText cid (sessionId st) #
              (case outcome of Inl err \<Rightarrow> [] | Inr response \<Rightarrow> [getConversations (sessionId st)]))"
  using assms
  by (cases outcome)
     (simp_all add: handleSendMessage_def handleSendMessage_begin_def handleSendMessage_end_def
        loadConversations_def)

text \<open>Without a conversation nothing is sent and no message is added.\<close>

lemma handleSendMessage_uninitialised:
  assumes "conversationId st = None \<or> conversationId st = Some ''''"
  shows "handleSendMessage messageText userUuid userNow outcome replyUuid replyNow st =
           (showSnackbar ''Chat not initialized'' ''error'' st, [])"
  using assms by (auto simp: handleSendMessage_def handleSendMessage_begin_def)

text \<open>
  C3. When the chat request fails, the handler (with a conversation selected, so that a
  request was made) ends normally in a state whose message list is the old list, then the
  user's message, then one message of role \<open>assistant\<close>. The content of that message is
  the error's detail when the error has a non-empty one, and the text
  \<open>Failed to get response. Is the backend running?\<close> otherwise. The second part of the
  handler alone appends the error message to whatever list it finds.
\<close>

theorem failed_request_appends_error_message:
  assumes "conversationId st = Some cid" and "cid \<noteq> []"
  shows "handleSendMessage messageText userUuid userNow (Inl err) replyUuid replyNow st =
           (st\<lparr>messages :=
                 messages st @ [userMessage userUuid userNow messageText, errorMsg replyUuid replyNow err],
               loading := False\<rparr>,
            [sendMessage messageText cid (sessionId st)])
       \<and> m_role (userMessage userUuid userNow messageText) = User
       \<and> m_content (userMessage userUuid userNow messageText) = messageText
       \<and> m_role (errorMsg replyUuid replyNow err) = Assistant
       \<and> (e_detail err = Some detail \<and> detail \<noteq> [] \<longrightarrow>
            m_content (errorMsg replyUuid replyNow err) = detail)
       \<and> (e_detail err = None \<or> e_detail err = Some '''' \<longrightarrow>
            m_content (errorMsg replyUuid replyNow err) = ''Failed to get response. Is the backend running?'')
       \<and> messages (fst (handleSendMessage_end (Inl err) replyUuid replyNow st')) =
            messages st' @ [errorMsg replyUuid replyNow err]"
  using assms
  by (auto simp: handleSendMessage_run handleSendMessage_end_appends userMessage_def errorMsg_def
      detail_or_def)

theorem failed_request_appends_error_message_witness:
  "fst (handleSendMessage ''Hello'' ''id-1'' ''t1'' (Inl \<lparr>e_detail = Some ''Rate limit exceeded''\<rparr>)
          ''id-2'' ''t2''
          \<lparr>sessionId = ''s1'', conversationId = Some ''c1'', messages = [], uploading = False,
           loading = False, snackbar = \<lparr>sn_open = False, sn_message = '''', sn_severity = ''info''\<rparr>\<rparr>)
   = \<lparr>sessionId = ''s1'', conversationId = Some ''c1'',
      messages =
        [\<lparr>m_id = ''id-1'', m_role = User, m_content = ''Hello'', m_created_at = ''t1'',
          m_sources = None, m_confidence = None, m_chart_id = None, m_chart_data = JUndefined\<rparr>,
         \<lparr>m_id = ''id-2'', m_role = Assistant, m_content = ''Rate limit exceeded'',
          m_created_at = ''t2'',
          m_sources = None, m_confidence = None, m_chart_id = None, m_chart_data = JUndefined\<rparr>],
      uploading = False, loading = False,
      snackbar = \<lparr>sn_open = False, sn_message = '''', sn_severity = ''info''\<rparr>\<rparr>
   \<and> m_content (errorMsg ''id-2'' ''t2'' \<lparr>e_detail = None\<rparr>) =
       ''Failed to get response. Is the backend running?''"
  using failed_request_appends_error_message
    [where st = "\<lparr>sessionId = ''s1'', conversationId = Some ''c1'', messages = [],
                  uploading = False, loading = False,
                  snackbar = \<lparr>sn_open = False, sn_message = '''', sn_severity = ''info''\<rparr>\<rparr>"
       and cid = "''c1''" and messageText = "''Hello''" and userUuid = "''id-1''" and userNow = "''t1''"
       and err = "\<lparr>e_detail = Some ''Rate limit exceeded''\<rparr>"
       and replyUuid = "''id-2''" and replyNow = "''t2''" and detail = "''Rate limit exceeded''"]
    failed_request_appends_error_message
    [where st = "\<lparr>sessionId = ''s1'', conversationId = Some ''c1'', messages = [],
                  uploading = False, loading = False,
                  snackbar = \<lparr>sn_open = False, sn_message = '''', sn_severity = ''info''\<rparr>\<rparr>"
       and cid = "''c1''" and err = "\<lparr>e_detail = None\<rparr>"
       and replyUuid = "''id-2''" and replyNow = "''t2''"]
  by (simp add: userMessage_def errorMsg_def detail_or_def)

text \<open>
  C4. When the chat request succeeds (with a conversation selected), the message list at
  the end is the old list followed by exactly two messages, the user message and then the
  assistant reply: it is two longer, and its first part is the old list, every message at
  its old position. Each of the two updates appends one message to the list it finds.
\<close>

theorem successful_send_appends_two_messages:
  assumes "conversationId st = Some cid" and "cid \<noteq> []"
  shows "messages (fst (handleSendMessage messageText userUuid userNow (Inr response) replyUuid replyNow st)) =
           messages st @ [userMessage userUuid userNow messageText, assistantMsg response]
       \<and> length (messages (fst (handleSendMessage messageText userUuid userNow (Inr response) replyUuid replyNow st)))
           = length (messages st) + 2
       \<and> take (length (messages st))
            (messages (fst (handleSendMessage messageText userUuid userNow (Inr response) replyUuid replyNow st)))
           = messages st
       \<and> (\<forall>i < length (messages st).
            messages (fst (handleSendMessage messageText userUuid userNow (Inr response) replyUuid replyNow st)) ! i
              = messages st ! i)
       \<and> messages (fst (handleSendMessage_begin messageText userUuid userNow st)) =
           messages st @ [userMessage userUuid userNow messageText]
       \<and> messages (fst (handleSendMessage_end (Inr response) replyUuid replyNow st')) =
           messages st' @ [assistantMsg response]"
  using assms
  by (simp add: handleSendMessage_run handleSendMessage_begin_appends
      handleSendMessage_end_appends nth_append)

theorem successful_send_appends_two_messages_witness:
  "messages
     (fst (handleSendMessage ''Next?'' ''id-3'' ''t3''
             (Inr \<lparr>r_message =
                     \<lparr>m_id = ''srv-9'', m_role = Assistant, m_content = ''Here.'',
                      m_created_at = ''t4'', m_sources = None, m_confidence = Some 0.8,
                      m_chart_id = None, m_chart_data = JUndefined\<rparr>,
                   r_sources = None, r_chart_data = JUndefined\<rparr>)
             ''id-4'' ''t5''
             \<lparr>sessionId = ''s1'', conversationId = Some ''c1'',
              messages =
                [\<lparr>m_id = ''id-1'', m_role = User, m_content = ''Hello'', m_created_at = ''t1'',
                  m_sources = None, m_confidence = None, m_chart_id = None,
                  m_chart_data = JUndefined\<rparr>],
              uploading = False, loading = False,
              snackbar = \<lparr>sn_open = False, sn_message = '''', sn_severity = ''info''\<rparr>\<rparr>))
   = [\<lparr>m_id = ''id-1'', m_role = User, m_content = ''Hello'', m_created_at = ''t1'',
       m_sources = None, m_confidence = None, m_chart_id = None, m_chart_data = JUndefined\<rparr>,
      \<lparr>m_id = ''id-3'', m_role = User, m_content = ''Next?'', m_created_at = ''t3'',
       m_sources = None, m_confidence = None, m_chart_id = None, m_chart_data = JUndefined\<rparr>,
      \<lparr>m_id = ''srv-9'', m_role = Assistant, m_content = ''Here.'', m_created_at = ''t4'',
       m_sources = Some [], m_confidence = Some 0.8, m_chart_id = None,
       m_chart_data = JUndefined\<rparr>]"
  using successful_send_appends_two_messages
    [where st = "\<lparr>sessionId = ''s1'', conversationId = Some ''c1'',
              messages =
                [\<lparr>m_id = ''id-1'', m_role = User, m_content = ''Hello'', m_created_at = ''t1'',
                  m_sources = None, m_confidence = None, m_chart_id = None,
                  m_chart_data = JUndefined\<rparr>],
              uploading = False, loading = False,
              snackbar = \<lparr>sn_open = False, sn_message = '''', sn_severity = ''info''\<rparr>\<rparr>"
       and cid = "''c1''" and messageText = "''Next?''" and userUuid = "''id-3''" and userNow = "''t3''"
       and response = "\<lparr>r_message =
                     \<lparr>m_id = ''srv-9'', m_role = Assistant, m_content = ''Here.'',
                      m_created_at = ''t4'', m_sources = None, m_confidence = Some 0.8,
                      m_chart_id = None, m_chart_data = JUndefined\<rparr>,
                   r_sources = None, r_chart_data = JUndefined\<rparr>"
       and replyUuid = "''id-4''" and replyNow = "''t5''"]
  by (simp add: userMessage_def assistantMsg_def js_or_def)

subsection \<open>The session identifier\<close>

lemma getSessionId_value:
  "getSessionId localStorage uuid =
     (let sid = (case localStorage ''rag_session_id'' of
                   Some stored \<Rightarrow> if stored \<noteq> [] then stored else uuid
                 | None \<Rightarrow> uuid)
      in (sid, localStorage(''rag_session_id'' \<mapsto> sid)))"
  by (auto simp: getSessionId_def Let_def fun_upd_idem split: option.splits)

text \<open>No handler changes the session identifier.\<close>

lemma handleFileUpload_end_sessionId:
  "sessionId (fst (handleFileUpload_end file outcome st)) = sessionId st"
  by (cases outcome) (simp_all add: handleFileUpload_end_def showSnackbar_def)

lemma handleNewConversation_end_sessionId:
  "sessionId (fst (handleNewConversation_end outcome st)) = sessionId st"
  by (cases outcome) (simp_all add: handleNewConversation_end_def showSnackbar_def)

lemma handleSendMessage_sessionId:
  "sessionId (fst (handleSendMessage messageText freshUuid now1 outcome nextUuid now2 st)) = sessionId st"
  by (auto simp: handleSendMessage_def handleSendMessage_begin_def handleSendMessage_end_def
      showSnackbar_def split: option.splits sum.splits)

text \<open>
  C6. \<open>getSessionId\<close> returns the stored identifier when there is a non-empty one, and
  otherwise the fresh UUID, which it stores; either way the identifier is in the storage
  afterwards, and a second call returns the same identifier and leaves the storage as it
  is. With that identifier as the \<open>sessionId\<close> of the state, the upload request carries it
  in the form field \<open>session_id\<close>, the chat request in the JSON field \<open>session_id\<close>, the
  document list and conversation list requests in their path, and the request that
  creates a conversation in its query, URI-encoded (an encoding that no other identifier
  shares); the mount effect issues the same requests; and the handlers leave \<open>sessionId\<close>
  as it is.
\<close>

theorem session_identifier_is_stable:
  assumes first: "getSessionId localStorage freshUuid = (sid, localStorage')"
      and fresh: "freshUuid \<noteq> []"
      and state: "sessionId st = sid"
  shows "sid = (case localStorage ''rag_session_id'' of
                  Some stored \<Rightarrow> if stored \<noteq> [] then stored else freshUuid
                | None \<Rightarrow> freshUuid)
       \<and> localStorage' ''rag_session_id'' = Some sid
       \<and> getSessionId localStorage' nextUuid = (sid, localStorage')
       \<and> sessionId (fst (App_initial localStorage freshUuid)) = sid
       \<and> sessionId (fst (App_initial localStorage' nextUuid)) = sid
       \<and> snd (handleFileUpload_begin file st) =
           \<lparr>rq_method = ''POST'', rq_url = ''/upload'',
            rq_body = FormData [(''file'', FormFile file), (''session_id'', FormField sid)]\<rparr>
       \<and> (conversationId st = Some cid \<and> cid \<noteq> [] \<longrightarrow>
           snd (handleSendMessage_begin messageText uuid now st) =
             Some \<lparr>rq_method = ''POST'', rq_url = ''/chat'',
                   rq_body = JsonBody (JObj [(''message'', JStr messageText),
                                             (''conversation_id'', JStr cid),
                                             (''session_id'', JStr sid)])\<rparr>)
       \<and> loadDocuments st =
           \<lparr>rq_method = ''GET'', rq_url = ''/documents/'' @ sid, rq_body = NoBody\<rparr>
       \<and> loadConversations st =
           \<lparr>rq_method = ''GET'', rq_url = ''/sessions/'' @ sid @ ''/conversations'',
            rq_body = NoBody\<rparr>
       \<and> handleNewConversation_begin st =
           \<lparr>rq_method = ''POST'',
            rq_url = ''/conversations?session_id='' @ encodeURIComponent sid, rq_body = NoBody\<rparr>
       \<and> init_requests (Inr []) st =
           [loadDocuments st, loadConversations st, loadConversations st,
            handleNewConversation_begin st]
       \<and> (encodeURIComponent other = encodeURIComponent sid \<longrightarrow> other = sid)
       \<and> sessionId (fst (handleSendMessage messageText uuid now outcome uuid' now' st)) = sid
       \<and> sessionId (fst (handleFileUpload_begin file st)) = sid
       \<and> sessionId (fst (handleFileUpload_end file uploaded st)) = sid
       \<and> sessionId (fst (handleNewConversation_end created st)) = sid"
proof -
  have sid: "sid = (case localStorage ''rag_session_id'' of
                  Some stored \<Rightarrow> if stored \<noteq> [] then stored else freshUuid
                | None \<Rightarrow> freshUuid)"
    and ls: "localStorage' = localStorage(''rag_session_id'' \<mapsto> sid)"
    using first by (auto simp: getSessionId_value Let_def)
  have nonempty: "sid \<noteq> []"
    using sid fresh by (simp split: option.splits if_splits)
  have stored: "localStorage' ''rag_session_id'' = Some sid"
    using ls by simp
  have again: "getSessionId localStorage' nextUuid = (sid, localStorage')"
    using stored nonempty by (simp add: getSessionId_def)
  have inj: "encodeURIComponent other = encodeURIComponent sid \<longrightarrow> other = sid"
    using encodeURIComponent_inj by blast
  show ?thesis
    using sid stored again inj state first
    by (simp add: App_initial_def handleFileUpload_begin_def uploadDocument_def
        handleSendMessage_begin_def sendMessage_def loadDocuments_def getDocuments_def
        loadConversations_def getConversations_def handleNewConversation_begin_def
        createConversation_def init_requests_def handleSendMessage_sessionId
        handleFileUpload_end_sessionId handleNewConversation_end_sessionId)
qed

theorem session_identifier_is_stable_witness:
  "getSessionId Map.empty ''3f2a-77'' = (''3f2a-77'', [''rag_session_id'' \<mapsto> ''3f2a-77''])
   \<and> getSessionId [''rag_session_id'' \<mapsto> ''3f2a-77''] ''9c1d-02''
       = (''3f2a-77'', [''rag_session_id'' \<mapsto> ''3f2a-77''])
   \<and> handleNewConversation_begin
        \<lparr>sessionId = ''3f2a-77'', conversationId = Some ''c1'', messages = [], uploading = False,
         loading = False, snackbar = \<lparr>sn_open = False, sn_message = '''', sn_severity = ''info''\<rparr>\<rparr>
       = \<lparr>rq_method = ''POST'', rq_url = ''/conversations?session_id=3f2a-77'', rq_body = NoBody\<rparr>
   \<and> snd (handleSendMessage_begin ''Hello'' ''id-1'' ''t1''
        \<lparr>sessionId = ''3f2a-77'', conversationId = Some ''c1'', messages = [], uploading = False,
         loading = False, snackbar = \<lparr>sn_open = False, sn_message = '''', sn_severity = ''info''\<rparr>\<rparr>)
       = Some \<lparr>rq_method = ''POST'', rq_url = ''/chat'',
               rq_body = JsonBody (JObj [(''message'', JStr ''Hello''),
                                         (''conversation_id'', JStr ''c1''),
                                         (''session_id'', JStr ''3f2a-77'')])\<rparr>"
proof -
  have first: "getSessionId Map.empty ''3f2a-77'' = (''3f2a-77'', [''rag_session_id'' \<mapsto> ''3f2a-77''])"
    by (simp add: getSessionId_def)
  have enc: "encodeURIComponent ''3f2a-77'' = ''3f2a-77''"
    by (simp add: encodeURIComponent_def encode_byte_def uri_unreserved_def)
  show ?thesis
    using first enc
      session_identifier_is_stable
        [where localStorage = Map.empty and freshUuid = "''3f2a-77''" and sid = "''3f2a-77''"
           and localStorage' = "[''rag_session_id'' \<mapsto> ''3f2a-77'']" and nextUuid = "''9c1d-02''"
           and st = "\<lparr>sessionId = ''3f2a-77'', conversationId = Some ''c1'', messages = [],
                       uploading = False, loading = False,
                       snackbar = \<lparr>sn_open = False, sn_message = '''', sn_severity = ''info''\<rparr>\<rparr>"
           and cid = "''c1''" and messageText = "''Hello''" and uuid = "''id-1''" and now = "''t1''"]
    by simp
qed

subsection \<open>The input row of the chat\<close>

text \<open>
  C8. For every input string, \<open>handleSend\<close> calls \<open>onSendMessage\<close> exactly when the trimmed
  input is not empty and \<open>loading\<close> is false; the argument is the trimmed input and the
  input is then the empty string; otherwise nothing is sent and the input stays. So an
  input of white space only (of any of the white space of Unicode), and any input while
  loading, sends nothing. The send button is disabled exactly when \<open>handleSend\<close> would send
  nothing, and a key press sends only what \<open>handleSend\<close> sends. What is sent neither
  starts nor ends with white space.
\<close>

theorem send_requires_trimmed_input:
  "handleSend input isLoading =
     (if trim input \<noteq> [] \<and> \<not> isLoading then (Some (trim input), []) else (None, input))
   \<and> (list_all js_whitespace input \<longrightarrow> fst (handleSend input isLoading) = None)
   \<and> (isLoading \<longrightarrow> fst (handleSend input isLoading) = None)
   \<and> (sendDisabled input isLoading \<longleftrightarrow> fst (handleSend input isLoading) = None)
   \<and> (fst (handleKeyDown key shiftKey input isLoading) \<noteq> None \<longrightarrow>
        handleKeyDown key shiftKey input isLoading = (Some (trim input), [])
        \<and> trim input \<noteq> [] \<and> \<not> isLoading)
   \<and> (fst (handleSend input isLoading) = Some sent \<longrightarrow>
        sent = trim input \<and> sent \<noteq> []
        \<and> \<not> js_whitespace (hd sent) \<and> \<not> js_whitespace (last sent))"
proof -
  have outer: "fst (handleSend input isLoading) = Some sent \<longrightarrow>
        sent = trim input \<and> sent \<noteq> []
        \<and> \<not> js_whitespace (hd sent) \<and> \<not> js_whitespace (last sent)"
    using trim_no_outer_space [of input]
    by (auto simp: handleSend_def split: if_splits)
  have rest: "handleSend input isLoading =
     (if trim input \<noteq> [] \<and> \<not> isLoading then (Some (trim input), []) else (None, input))
   \<and> (list_all js_whitespace input \<longrightarrow> fst (handleSend input isLoading) = None)
   \<and> (isLoading \<longrightarrow> fst (handleSend input isLoading) = None)
   \<and> (sendDisabled input isLoading \<longleftrightarrow> fst (handleSend input isLoading) = None)
   \<and> (fst (handleKeyDown key shiftKey input isLoading) \<noteq> None \<longrightarrow>
        handleKeyDown key shiftKey input isLoading = (Some (trim input), [])
        \<and> trim input \<noteq> [] \<and> \<not> isLoading)"
    by (auto simp: handleSend_def handleKeyDown_def sendDisabled_def trim_empty_iff)
  from rest outer show ?thesis by blast
qed

text \<open>
  The inputs of the example: \<open>hi\<close> between spaces; two no-break spaces; \<open>hi\<close> while
  loading; \<open>ok\<close> after an em space and before a line separator, sent with Enter.
\<close>

theorem send_requires_trimmed_input_witness:
  "handleSend [0x20, 0x68, 0x69, 0x20] False = (Some [0x68, 0x69], [])
   \<and> handleSend [0xA0, 0xA0] False = (None, [0xA0, 0xA0])
   \<and> sendDisabled [0xA0, 0xA0] False
   \<and> handleSend [0x68, 0x69] True = (None, [0x68, 0x69])
   \<and> handleKeyDown ''Enter'' False [0x2003, 0x6F, 0x6B, 0x2028] False = (Some [0x6F, 0x6B], [])"
proof -
  have spaces: "trim [0x20, 0x68, 0x69, 0x20] = [0x68, 0x69]"
    by (simp add: trim_def js_whitespace_def)
  have blank: "trim [0xA0, 0xA0] = []"
    by (simp add: trim_def js_whitespace_def)
  have ok: "trim [0x2003, 0x6F, 0x6B, 0x2028] = [0x6F, 0x6B]"
    by (simp add: trim_def js_whitespace_def)
  have sent: "handleSend [0x20, 0x68, 0x69, 0x20] False = (Some [0x68, 0x69], [])"
    using send_requires_trimmed_input [of "[0x20, 0x68, 0x69, 0x20]" False, THEN conjunct1] by (simp add: spaces)
  have held: "handleSend [0xA0, 0xA0] False = (None, [0xA0, 0xA0])"
    using send_requires_trimmed_input [of "[0xA0, 0xA0]" False, THEN conjunct1] by (simp add: blank)
  have disabled: "sendDisabled [0xA0, 0xA0] False"
    using send_requires_trimmed_input
      [of "[0xA0, 0xA0]" False, THEN conjunct2, THEN conjunct2, THEN conjunct2, THEN conjunct1] held by simp
  have busy: "handleSend [0x68, 0x69] True = (None, [0x68, 0x69])"
    using send_requires_trimmed_input [of "[0x68, 0x69]" True, THEN conjunct1] by simp
  have enter: "handleKeyDown ''Enter'' False [0x2003, 0x6F, 0x6B, 0x2028] False
                 = (Some [0x6F, 0x6B], [])"
    by (simp add: handleKeyDown_def handleSend_def ok)
  from sent held disabled busy enter show ?thesis by simp
qed

subsection \<open>The search filter of the sidebar\<close>



subsection \<open>Properties of the status chip\<close>

text \<open>
  C5. The status chip maps \<open>ready\<close> to colour \<open>success\<close> with the check icon,
  \<open>processing\<close> to \<open>warning\<close> with the hourglass icon, \<open>failed\<close> to \<open>error\<close> with the error
  icon, and every other status string to colour \<open>default\<close> with no icon. The three states
  of the status set are pairwise distinct in colour and in icon, and none of them has the
  colour or the missing icon of an unknown status.
\<close>

theorem status_chip_states:
  "statusChip ''ready'' =
     \<lparr>chip_label = ''ready'', chip_color = ''success'', chip_icon = Some CheckCircleIcon\<rparr>
   \<and> statusChip ''processing'' =
     \<lparr>chip_label = ''processing'', chip_color = ''warning'', chip_icon = Some HourglassEmptyIcon\<rparr>
   \<and> statusChip ''failed'' =
     \<lparr>chip_label = ''failed'', chip_color = ''error'', chip_icon = Some ErrorIcon\<rparr>
   \<and> (s \<noteq> ''ready'' \<and> s \<noteq> ''processing'' \<and> s \<noteq> ''failed'' \<longrightarrow>
        chip_color (statusChip s) = ''default'' \<and> chip_icon (statusChip s) = None)
   \<and> distinct (map getStatusColor [''ready'', ''processing'', ''failed''])
   \<and> distinct (map getStatusIcon [''ready'', ''processing'', ''failed''])
   \<and> ''default'' \<notin> set (map getStatusColor [''ready'', ''processing'', ''failed''])
   \<and> None \<notin> set (map getStatusIcon [''ready'', ''processing'', ''failed''])"
  by (simp add: statusChip_def getStatusColor_def getStatusIcon_def)

theorem status_chip_states_witness:
  "''uploaded'' \<noteq> ''ready'' \<and> ''uploaded'' \<noteq> ''processing'' \<and> ''uploaded'' \<noteq> ''failed''
   \<and> chip_color (statusChip ''uploaded'') = ''default''
   \<and> chip_icon (statusChip ''uploaded'') = None"
  using status_chip_states [of "''uploaded''"] by simp

end
